theory Spec2Isabelle
  imports Complex_Main
begin


section \<open>Configuration types (ell_config.hpp)\<close>

text \<open>
  The C++ sources work on \<^verbatim>\<open>double\<close>. Throughout this development a finite double is a
  \<^typ>\<open>real\<close> and arithmetic is exact; the loop counters (\<^verbatim>\<open>unsigned\<close>, \<^verbatim>\<open>size_t\<close>)
  are \<^typ>\<open>nat\<close>, since every counter below starts at zero or at an index of the
  matrix and is bounded by \<^verbatim>\<open>max_iter\<close> or by the dimension.
\<close>

datatype CutStatus = Success | NoSoln | SmallEnough | NoEffect

record Options =
  max_iter :: nat
  tol :: real

text \<open>
  \<^verbatim>\<open>CInfo\<close> has three members. The drivers build it as \<^verbatim>\<open>{feasible, niter}\<close>, which
  value-initialises the third member to the first enumerator, \<^verbatim>\<open>CutStatus::Success\<close>.
\<close>

record CInfo =
  feasible :: bool
  num_iters :: nat
  status :: CutStatus


section \<open>The search-space contract\<close>

text \<open>
  The drivers are templates over the search space; the ellipsoid classes themselves are
  not part of the sources at hand. A space is therefore a state type \<open>'s\<close> together with
  the member functions the drivers call. \<open>array0\<close> is the value-initialised array
  \<^verbatim>\<open>CuttingPlaneArrayType<Space>{}\<close>.
\<close>

record ('s, 'x, 'c) Space =
  xc :: "'s \<Rightarrow> 'x"
  set_xc :: "'s \<Rightarrow> 'x \<Rightarrow> 's"
  tsq :: "'s \<Rightarrow> real"
  update :: "'s \<Rightarrow> 'c \<Rightarrow> CutStatus \<times> 's"
  copy :: "'s \<Rightarrow> 's"
  array0 :: "'x"

section \<open>cutting_plane_feas\<close>

text \<open>
  The oracle is passed by reference and may change, so \<^verbatim>\<open>omega.assess_feas(x)\<close> is a
  function from the oracle's state and the point to the returned pointer (\<open>None\<close> is the
  null pointer) and the oracle's new state. The driver returns the \<^verbatim>\<open>CInfo\<close> together
  with the final oracle and space, which the C++ caller sees through the references.
  The counter starts at 0 and is incremented by one, so \<^verbatim>\<open>niter != max_iter\<close> is
  \<open>niter < max_iter\<close>.
\<close>

function cutting_plane_feas_loop ::
  "('s, 'x, 'c) Space \<Rightarrow> ('o \<Rightarrow> 'x \<Rightarrow> 'c option \<times> 'o) \<Rightarrow> Options \<Rightarrow> nat \<Rightarrow> 'o \<Rightarrow> 's
     \<Rightarrow> CInfo \<times> 'o \<times> 's" where
  "cutting_plane_feas_loop S assess_feas options niter omega space =
     (if niter < max_iter options then
        (case assess_feas omega (xc S space) of
           (None, omega1) \<Rightarrow>
             (\<lparr>feasible = True, num_iters = niter, status = Success\<rparr>, omega1, space)
         | (Some c, omega1) \<Rightarrow>
             (case update S space c of
                (cutstatus, space1) \<Rightarrow>
                  if cutstatus \<noteq> Success \<or> tsq S space1 < tol options
                  then (\<lparr>feasible = False, num_iters = niter, status = Success\<rparr>, omega1, space1)
                  else cutting_plane_feas_loop S assess_feas options (niter + 1) omega1 space1))
      else (\<lparr>feasible = False, num_iters = max_iter options, status = Success\<rparr>, omega, space))"
  by pat_completeness auto

termination
  by (relation "measure (\<lambda>(S, a, options, niter, omega, space). max_iter options - niter)") auto

declare cutting_plane_feas_loop.simps [simp del]

definition cutting_plane_feas ::
  "('s, 'x, 'c) Space \<Rightarrow> ('o \<Rightarrow> 'x \<Rightarrow> 'c option \<times> 'o) \<Rightarrow> Options \<Rightarrow> 'o \<Rightarrow> 's
     \<Rightarrow> CInfo \<times> 'o \<times> 's" where
  "cutting_plane_feas S assess_feas options omega space =
     cutting_plane_feas_loop S assess_feas options 0 omega space"

subsection \<open>The iteration sequence the specification describes\<close>

text \<open>
  Following the specification's words: at each iteration the oracle is asked at the current
  centre; a null answer leaves the space alone, a cut is applied with \<^verbatim>\<open>space.update\<close>.
  \<open>feas_iter \<dots> k\<close> is the oracle and the space at the start of iteration \<open>k\<close>.
\<close>

primrec feas_iter ::
  "('s, 'x, 'c) Space \<Rightarrow> ('o \<Rightarrow> 'x \<Rightarrow> 'c option \<times> 'o) \<Rightarrow> 'o \<Rightarrow> 's \<Rightarrow> nat \<Rightarrow> 'o \<times> 's" where
  "feas_iter S assess_feas omega space 0 = (omega, space)"
| "feas_iter S assess_feas omega space (Suc k) =
     (case feas_iter S assess_feas omega space k of
        (omega_k, space_k) \<Rightarrow>
          (case assess_feas omega_k (xc S space_k) of
             (None, omega1) \<Rightarrow> (omega1, space_k)
           | (Some c, omega1) \<Rightarrow> (omega1, snd (update S space_k c))))"

text \<open>Iteration \<open>k\<close> finds a feasible point: the oracle returns null.\<close>

definition feas_found ::
  "('s, 'x, 'c) Space \<Rightarrow> ('o \<Rightarrow> 'x \<Rightarrow> 'c option \<times> 'o) \<Rightarrow> 'o \<Rightarrow> 's \<Rightarrow> nat \<Rightarrow> bool" where
  "feas_found S assess_feas omega space k =
     (case feas_iter S assess_feas omega space k of
        (omega_k, space_k) \<Rightarrow> fst (assess_feas omega_k (xc S space_k)) = None)"

text \<open>Iteration \<open>k\<close> gives up: the oracle returns a cut, and the update's status is not
  \<open>Success\<close> or the updated \<^verbatim>\<open>tsq()\<close> is below the tolerance.\<close>

definition feas_gives_up ::
  "('s, 'x, 'c) Space \<Rightarrow> ('o \<Rightarrow> 'x \<Rightarrow> 'c option \<times> 'o) \<Rightarrow> Options \<Rightarrow> 'o \<Rightarrow> 's \<Rightarrow> nat \<Rightarrow> bool" where
  "feas_gives_up S assess_feas options omega space k =
     (case feas_iter S assess_feas omega space k of
        (omega_k, space_k) \<Rightarrow>
          (case fst (assess_feas omega_k (xc S space_k)) of
             None \<Rightarrow> False
           | Some c \<Rightarrow> fst (update S space_k c) \<noteq> Success
                      \<or> tsq S (snd (update S space_k c)) < tol options))"

section \<open>cutting_plane_optim\<close>

text \<open>
  \<^verbatim>\<open>omega.assess_optim(xc, tea)\<close> returns the cut and the flag \<^verbatim>\<open>shrunk\<close>, and may change the
  oracle and the target \<^verbatim>\<open>tea\<close>, which it receives by reference. The driver's result is the
  returned tuple together with the final oracle, space and target.
\<close>

function cutting_plane_optim_loop ::
  "('s, 'x, 'c) Space \<Rightarrow> ('o \<Rightarrow> 'x \<Rightarrow> 't \<Rightarrow> ('c \<times> bool) \<times> 'o \<times> 't) \<Rightarrow> Options \<Rightarrow> nat
     \<Rightarrow> 'o \<Rightarrow> 's \<Rightarrow> 't \<Rightarrow> 'x \<Rightarrow> ('x \<times> nat) \<times> 'o \<times> 's \<times> 't" where
  "cutting_plane_optim_loop S assess_optim options niter omega space tea x_best =
     (if niter < max_iter options then
        (case assess_optim omega (xc S space) tea of
           ((c, shrunk), omega1, tea1) \<Rightarrow>
             (case (if shrunk then (xc S space, update S space c)
                    else (x_best, update S space c)) of
                (x_best1, cutstatus, space1) \<Rightarrow>
                  if cutstatus \<noteq> Success \<or> tsq S space1 < tol options
                  then ((x_best1, niter), omega1, space1, tea1)
                  else cutting_plane_optim_loop S assess_optim options (niter + 1)
                         omega1 space1 tea1 x_best1))
      else ((x_best, max_iter options), omega, space, tea))"
  by pat_completeness auto

termination
  by (relation "measure (\<lambda>(S, a, options, niter, omega, space, tea, x_best). max_iter options - niter)")
     auto

declare cutting_plane_optim_loop.simps [simp del]

definition cutting_plane_optim ::
  "('s, 'x, 'c) Space \<Rightarrow> ('o \<Rightarrow> 'x \<Rightarrow> 't \<Rightarrow> ('c \<times> bool) \<times> 'o \<times> 't) \<Rightarrow> Options
     \<Rightarrow> 'o \<Rightarrow> 's \<Rightarrow> 't \<Rightarrow> ('x \<times> nat) \<times> 'o \<times> 's \<times> 't" where
  "cutting_plane_optim S assess_optim options omega space tea =
     cutting_plane_optim_loop S assess_optim options 0 omega space tea (array0 S)"

subsection \<open>The iteration sequence the specification describes\<close>

text \<open>
  \<open>optim_iter \<dots> k\<close> is the oracle, space, target and best point at the start of iteration
  \<open>k\<close>: every iteration asks the oracle at the current centre, records that centre as the best
  point exactly when \<^verbatim>\<open>shrunk\<close> is set, and applies the returned cut.
\<close>

primrec optim_iter ::
  "('s, 'x, 'c) Space \<Rightarrow> ('o \<Rightarrow> 'x \<Rightarrow> 't \<Rightarrow> ('c \<times> bool) \<times> 'o \<times> 't) \<Rightarrow> 'o \<Rightarrow> 's \<Rightarrow> 't \<Rightarrow> nat
     \<Rightarrow> 'o \<times> 's \<times> 't \<times> 'x" where
  "optim_iter S assess_optim omega space tea 0 = (omega, space, tea, array0 S)"
| "optim_iter S assess_optim omega space tea (Suc k) =
     (case optim_iter S assess_optim omega space tea k of
        (omega_k, space_k, tea_k, best_k) \<Rightarrow>
          (case assess_optim omega_k (xc S space_k) tea_k of
             ((c, shrunk), omega1, tea1) \<Rightarrow>
               (omega1, snd (update S space_k c), tea1,
                if shrunk then xc S space_k else best_k)))"

text \<open>The status the update of iteration \<open>k\<close> reports.\<close>

definition optim_status ::
  "('s, 'x, 'c) Space \<Rightarrow> ('o \<Rightarrow> 'x \<Rightarrow> 't \<Rightarrow> ('c \<times> bool) \<times> 'o \<times> 't) \<Rightarrow> 'o \<Rightarrow> 's \<Rightarrow> 't \<Rightarrow> nat
     \<Rightarrow> CutStatus" where
  "optim_status S assess_optim omega space tea k =
     (case optim_iter S assess_optim omega space tea k of
        (omega_k, space_k, tea_k, best_k) \<Rightarrow>
          fst (update S space_k (fst (fst (assess_optim omega_k (xc S space_k) tea_k)))))"

text \<open>Iteration \<open>k\<close> ends the search: its update does not report \<open>Success\<close>, or leaves
  \<^verbatim>\<open>tsq()\<close> below the tolerance.\<close>

definition optim_stops ::
  "('s, 'x, 'c) Space \<Rightarrow> ('o \<Rightarrow> 'x \<Rightarrow> 't \<Rightarrow> ('c \<times> bool) \<times> 'o \<times> 't) \<Rightarrow> Options \<Rightarrow> 'o \<Rightarrow> 's \<Rightarrow> 't
     \<Rightarrow> nat \<Rightarrow> bool" where
  "optim_stops S assess_optim options omega space tea k =
     (optim_status S assess_optim omega space tea k \<noteq> Success
      \<or> tsq S (fst (snd (optim_iter S assess_optim omega space tea (Suc k)))) < tol options)"

section \<open>cutting_plane_q\<close>

text \<open>
  \<^verbatim>\<open>omega.assess_q(xc, tea, retry)\<close> returns the cut, \<^verbatim>\<open>shrunk\<close>, the point \<^verbatim>\<open>x0\<close> it evaluated
  and \<^verbatim>\<open>more_alt\<close>. The two branches on the update's status either leave the loop
  (\<^verbatim>\<open>break\<close>), return, or fall through to the tolerance test with the loop variables
  \<^verbatim>\<open>status\<close> (here \<open>status0\<close>, as \<open>status\<close> is the member of \<^verbatim>\<open>CInfo\<close>) and
  \<^verbatim>\<open>retry\<close> as they then are.
\<close>

datatype q_flow = Break | Return | Through CutStatus bool

function cutting_plane_q_loop ::
  "('s, 'x, 'c) Space \<Rightarrow> ('o \<Rightarrow> 'x \<Rightarrow> 't \<Rightarrow> bool \<Rightarrow> ('c \<times> bool \<times> 'x \<times> bool) \<times> 'o \<times> 't) \<Rightarrow> Options
     \<Rightarrow> nat \<Rightarrow> 'o \<Rightarrow> 's \<Rightarrow> 't \<Rightarrow> 'x \<Rightarrow> CutStatus \<Rightarrow> bool \<Rightarrow> ('x \<times> nat) \<times> 'o \<times> 's \<times> 't" where
  "cutting_plane_q_loop S assess_q options niter omega space tea x_best status0 retry =
     (if niter < max_iter options then
        (case assess_q omega (xc S space) tea retry of
           ((c, shrunk, x0, more_alt), omega1, tea1) \<Rightarrow>
             (case (if shrunk then x0 else x_best) of
                x_best1 \<Rightarrow>
                  (case update S space c of
                     (cutstatus, space1) \<Rightarrow>
                       (case (if cutstatus = NoEffect then
                                (if \<not> more_alt then Break else Through cutstatus True)
                              else if cutstatus = NoSoln then Return
                              else Through status0 retry) of
                          Break \<Rightarrow> ((x_best1, max_iter options), omega1, space1, tea1)
                        | Return \<Rightarrow> ((x_best1, niter), omega1, space1, tea1)
                        | Through status1 retry1 \<Rightarrow>
                            if tsq S space1 < tol options
                            then ((x_best1, niter), omega1, space1, tea1)
                            else cutting_plane_q_loop S assess_q options (niter + 1)
                                   omega1 space1 tea1 x_best1 status1 retry1))))
      else ((x_best, max_iter options), omega, space, tea))"
  by pat_completeness auto

termination
  by (relation "measure (\<lambda>(S, a, options, niter, rest). max_iter options - niter)") auto

declare cutting_plane_q_loop.simps [simp del]

definition cutting_plane_q ::
  "('s, 'x, 'c) Space \<Rightarrow> ('o \<Rightarrow> 'x \<Rightarrow> 't \<Rightarrow> bool \<Rightarrow> ('c \<times> bool \<times> 'x \<times> bool) \<times> 'o \<times> 't) \<Rightarrow> Options
     \<Rightarrow> 'o \<Rightarrow> 's \<Rightarrow> 't \<Rightarrow> ('x \<times> nat) \<times> 'o \<times> 's \<times> 't" where
  "cutting_plane_q S assess_q options omega space tea =
     (case NoSoln of
        status0 \<Rightarrow>
          (case (status0 = NoEffect) of
             retry \<Rightarrow> cutting_plane_q_loop S assess_q options 0 omega space tea (array0 S)
                        status0 retry))"

subsection \<open>The iteration sequence the specification describes\<close>

text \<open>
  \<open>q_iter \<dots> k\<close> is the oracle, space, target, best point and retry flag at the start of
  iteration \<open>k\<close>. In the specification's words the flag starts false and is set only by an
  update that reports \<open>NoEffect\<close> while the oracle has more alternatives; the best point
  becomes \<^verbatim>\<open>x0\<close> at every iteration whose \<^verbatim>\<open>shrunk\<close> is set.
\<close>

primrec q_iter ::
  "('s, 'x, 'c) Space \<Rightarrow> ('o \<Rightarrow> 'x \<Rightarrow> 't \<Rightarrow> bool \<Rightarrow> ('c \<times> bool \<times> 'x \<times> bool) \<times> 'o \<times> 't)
     \<Rightarrow> 'o \<Rightarrow> 's \<Rightarrow> 't \<Rightarrow> nat \<Rightarrow> 'o \<times> 's \<times> 't \<times> 'x \<times> bool" where
  "q_iter S assess_q omega space tea 0 = (omega, space, tea, array0 S, False)"
| "q_iter S assess_q omega space tea (Suc k) =
     (case q_iter S assess_q omega space tea k of
        (omega_k, space_k, tea_k, best_k, retry_k) \<Rightarrow>
          (case assess_q omega_k (xc S space_k) tea_k retry_k of
             ((c, shrunk, x0, more_alt), omega1, tea1) \<Rightarrow>
               (omega1, snd (update S space_k c), tea1,
                if shrunk then x0 else best_k,
                retry_k \<or> (fst (update S space_k c) = NoEffect \<and> more_alt))))"

text \<open>What the oracle answers at iteration \<open>k\<close>, and the status of that iteration's update.\<close>

definition q_answer ::
  "('s, 'x, 'c) Space \<Rightarrow> ('o \<Rightarrow> 'x \<Rightarrow> 't \<Rightarrow> bool \<Rightarrow> ('c \<times> bool \<times> 'x \<times> bool) \<times> 'o \<times> 't)
     \<Rightarrow> 'o \<Rightarrow> 's \<Rightarrow> 't \<Rightarrow> nat \<Rightarrow> 'c \<times> bool \<times> 'x \<times> bool" where
  "q_answer S assess_q omega space tea k =
     (case q_iter S assess_q omega space tea k of
        (omega_k, space_k, tea_k, best_k, retry_k) \<Rightarrow>
          fst (assess_q omega_k (xc S space_k) tea_k retry_k))"

definition q_status ::
  "('s, 'x, 'c) Space \<Rightarrow> ('o \<Rightarrow> 'x \<Rightarrow> 't \<Rightarrow> bool \<Rightarrow> ('c \<times> bool \<times> 'x \<times> bool) \<times> 'o \<times> 't)
     \<Rightarrow> 'o \<Rightarrow> 's \<Rightarrow> 't \<Rightarrow> nat \<Rightarrow> CutStatus" where
  "q_status S assess_q omega space tea k =
     fst (update S (fst (snd (q_iter S assess_q omega space tea k)))
            (fst (q_answer S assess_q omega space tea k)))"

definition q_more_alt ::
  "('s, 'x, 'c) Space \<Rightarrow> ('o \<Rightarrow> 'x \<Rightarrow> 't \<Rightarrow> bool \<Rightarrow> ('c \<times> bool \<times> 'x \<times> bool) \<times> 'o \<times> 't)
     \<Rightarrow> 'o \<Rightarrow> 's \<Rightarrow> 't \<Rightarrow> nat \<Rightarrow> bool" where
  "q_more_alt S assess_q omega space tea k =
     snd (snd (snd (q_answer S assess_q omega space tea k)))"

text \<open>The retry flag the oracle receives at iteration \<open>k\<close>, and the best point at its start.\<close>

definition q_retry ::
  "('s, 'x, 'c) Space \<Rightarrow> ('o \<Rightarrow> 'x \<Rightarrow> 't \<Rightarrow> bool \<Rightarrow> ('c \<times> bool \<times> 'x \<times> bool) \<times> 'o \<times> 't)
     \<Rightarrow> 'o \<Rightarrow> 's \<Rightarrow> 't \<Rightarrow> nat \<Rightarrow> bool" where
  "q_retry S assess_q omega space tea k =
     snd (snd (snd (snd (q_iter S assess_q omega space tea k))))"

definition q_best ::
  "('s, 'x, 'c) Space \<Rightarrow> ('o \<Rightarrow> 'x \<Rightarrow> 't \<Rightarrow> bool \<Rightarrow> ('c \<times> bool \<times> 'x \<times> bool) \<times> 'o \<times> 't)
     \<Rightarrow> 'o \<Rightarrow> 's \<Rightarrow> 't \<Rightarrow> nat \<Rightarrow> 'x" where
  "q_best S assess_q omega space tea k =
     fst (snd (snd (snd (q_iter S assess_q omega space tea k))))"

text \<open>The ways iteration \<open>k\<close> can end the search: no alternative cut is left (the loop is
  left by \<^verbatim>\<open>break\<close>), the cut proves there is no solution, or \<^verbatim>\<open>tsq()\<close> is below the
  tolerance after the update.\<close>

definition q_no_alternative ::
  "('s, 'x, 'c) Space \<Rightarrow> ('o \<Rightarrow> 'x \<Rightarrow> 't \<Rightarrow> bool \<Rightarrow> ('c \<times> bool \<times> 'x \<times> bool) \<times> 'o \<times> 't)
     \<Rightarrow> 'o \<Rightarrow> 's \<Rightarrow> 't \<Rightarrow> nat \<Rightarrow> bool" where
  "q_no_alternative S assess_q omega space tea k =
     (q_status S assess_q omega space tea k = NoEffect \<and> \<not> q_more_alt S assess_q omega space tea k)"

definition q_small ::
  "('s, 'x, 'c) Space \<Rightarrow> ('o \<Rightarrow> 'x \<Rightarrow> 't \<Rightarrow> bool \<Rightarrow> ('c \<times> bool \<times> 'x \<times> bool) \<times> 'o \<times> 't) \<Rightarrow> Options
     \<Rightarrow> 'o \<Rightarrow> 's \<Rightarrow> 't \<Rightarrow> nat \<Rightarrow> bool" where
  "q_small S assess_q options omega space tea k =
     (tsq S (fst (snd (q_iter S assess_q omega space tea (Suc k)))) < tol options)"

definition q_stops ::
  "('s, 'x, 'c) Space \<Rightarrow> ('o \<Rightarrow> 'x \<Rightarrow> 't \<Rightarrow> bool \<Rightarrow> ('c \<times> bool \<times> 'x \<times> bool) \<times> 'o \<times> 't) \<Rightarrow> Options
     \<Rightarrow> 'o \<Rightarrow> 's \<Rightarrow> 't \<Rightarrow> nat \<Rightarrow> bool" where
  "q_stops S assess_q options omega space tea k =
     (q_no_alternative S assess_q omega space tea k
      \<or> q_status S assess_q omega space tea k = NoSoln
      \<or> q_small S assess_q options omega space tea k)"

section \<open>bsearch and bsearch_adaptor\<close>





text \<open>
  The adaptor holds references to an oracle and a space, so its state is that pair. The
  oracle here has two members: \<^verbatim>\<open>update(tea)\<close> and \<^verbatim>\<open>assess_feas\<close>.
\<close>

definition bsearch_adaptor_assess_bs ::
  "('s, 'x, 'c) Space \<Rightarrow> ('o \<Rightarrow> 't \<Rightarrow> 'o) \<Rightarrow> ('o \<Rightarrow> 'x \<Rightarrow> 'c option \<times> 'o) \<Rightarrow> Options
     \<Rightarrow> 'o \<times> 's \<Rightarrow> 't \<Rightarrow> bool \<times> 'o \<times> 's" where
  "bsearch_adaptor_assess_bs S omega_update assess_feas options adaptor tea =
     (case adaptor of
        (omega, outer) \<Rightarrow>
          (case copy S outer of
             space \<Rightarrow>
               (case omega_update omega tea of
                  omega1 \<Rightarrow>
                    (case cutting_plane_feas S assess_feas options omega1 space of
                       (ell_info, omega2, space2) \<Rightarrow>
                         if feasible ell_info
                         then (feasible ell_info, omega2, set_xc S outer (xc S space2))
                         else (feasible ell_info, omega2, outer)))))"

subsection \<open>The bisection sequence the specification describes\<close>



subsection \<open>Test doubles for the template parameters\<close>

text \<open>
  A scripted space: a cut carries the status the update reports and the \<^verbatim>\<open>tsq\<close> it leaves;
  a successful update moves the centre by one. The scripted oracles answer from a list; the
  optimisation oracle raises the target by one when it reports \<^verbatim>\<open>shrunk\<close>, and the discrete
  oracle also logs the retry flags it receives and evaluates at the doubled centre.
\<close>

definition script_space :: "(real list \<times> real, real list, CutStatus \<times> real) Space" where
  "script_space =
     \<lparr>xc = fst, set_xc = (\<lambda>s x. (x, snd s)), tsq = snd,
      update = (\<lambda>s c. (fst c, if fst c = Success then (map (\<lambda>v. v + 1) (fst s), snd c) else s)),
      copy = (\<lambda>s. s), array0 = []\<rparr>"

definition script_feas :: "'c option list \<Rightarrow> 'x \<Rightarrow> 'c option \<times> 'c option list" where
  "script_feas script x = (case script of [] \<Rightarrow> (None, []) | a # rest \<Rightarrow> (a, rest))"

definition script_optim ::
  "((CutStatus \<times> real) \<times> bool) list \<Rightarrow> 'x \<Rightarrow> real
     \<Rightarrow> ((CutStatus \<times> real) \<times> bool) \<times> ((CutStatus \<times> real) \<times> bool) list \<times> real" where
  "script_optim script x tea =
     (case script of
        [] \<Rightarrow> (((NoSoln, 0), False), [], tea)
      | (c, shrunk) # rest \<Rightarrow> ((c, shrunk), rest, if shrunk then tea + 1 else tea))"

definition script_q ::
  "((CutStatus \<times> real) \<times> bool \<times> bool) list \<times> bool list \<Rightarrow> real list \<Rightarrow> real \<Rightarrow> bool
     \<Rightarrow> ((CutStatus \<times> real) \<times> bool \<times> real list \<times> bool)
        \<times> (((CutStatus \<times> real) \<times> bool \<times> bool) list \<times> bool list) \<times> real" where
  "script_q omega x tea retry =
     (case omega of
        (script, flags) \<Rightarrow>
          (case script of
             [] \<Rightarrow> (((NoSoln, 0), False, x, False), ([], flags @ [retry]), tea)
           | (c, shrunk, more_alt) # rest \<Rightarrow>
               ((c, shrunk, map (\<lambda>v. 2 * v) x, more_alt), (rest, flags @ [retry]),
                if shrunk then tea + 1 else tea)))"

text \<open>The status the update of iteration \<open>k\<close> reports, when the oracle returned a cut.\<close>

definition feas_cut_status ::
  "('s, 'x, 'c) Space \<Rightarrow> ('o \<Rightarrow> 'x \<Rightarrow> 'c option \<times> 'o) \<Rightarrow> 'o \<Rightarrow> 's \<Rightarrow> nat \<Rightarrow> CutStatus option" where
  "feas_cut_status S assess_feas omega space k =
     (case feas_iter S assess_feas omega space k of
        (omega_k, space_k) \<Rightarrow>
          (case fst (assess_feas omega_k (xc S space_k)) of
             None \<Rightarrow> None
           | Some c \<Rightarrow> Some (fst (update S space_k c))))"

section \<open>ProfitOracle::assess_optim (profit_oracle.cpp)\<close>











section \<open>LDLTMgr (ldlt_mgr.cpp)\<close>

text \<open>
  The class is declared in \<^verbatim>\<open>ldlt_mgr.hpp\<close>, which is not among the sources, and neither is
  the matrix class of its member \<^verbatim>\<open>T\<close>. The members are the ones the three functions use:
  the dimension \<^verbatim>\<open>_n\<close> (here \<open>ndim\<close>), the range \<^verbatim>\<open>p\<close>, the witness vector and the workspace
  \<^verbatim>\<open>T\<close>. The two containers are total maps from indices; \<open>mat_set\<close> is the assignment
  \<^verbatim>\<open>T(i, j) = v\<close>.
\<close>

record LDLTMgr =
  ndim :: nat
  p :: "nat \<times> nat"
  witness_vec :: "nat \<Rightarrow> real"
  T :: "nat \<Rightarrow> nat \<Rightarrow> real"

definition mat_set :: "(nat \<Rightarrow> nat \<Rightarrow> real) \<Rightarrow> nat \<Rightarrow> nat \<Rightarrow> real \<Rightarrow> nat \<Rightarrow> nat \<Rightarrow> real" where
  "mat_set A i j v = A(i := (A i)(j := v))"

















subsection \<open>What the factorization and the witness are to satisfy\<close>














subsection \<open>Matrices and a manager to run the functions on\<close>






section \<open>How the driver loops run\<close>

text \<open>Each loop, started at iteration 0, is the same loop started at iteration \<open>k\<close> in the
  state the iteration sequence gives, as long as no earlier iteration ended the search.\<close>

lemma feas_loop_advance:
  assumes "niter < max_iter options"
    and "\<not> feas_found S af omega space niter"
    and "\<not> feas_gives_up S af options omega space niter"
    and "feas_iter S af omega space niter = (om, sp)"
    and "feas_iter S af omega space (Suc niter) = (om1, sp1)"
  shows "cutting_plane_feas_loop S af options niter om sp
           = cutting_plane_feas_loop S af options (Suc niter) om1 sp1"
  using assms
  by (subst cutting_plane_feas_loop.simps)
     (auto simp: feas_found_def feas_gives_up_def split: prod.splits option.splits)

lemma feas_loop_skip:
  assumes "k \<le> max_iter options"
    and "\<forall>j<k. \<not> feas_found S af omega space j \<and> \<not> feas_gives_up S af options omega space j"
  shows "cutting_plane_feas S af options omega space
           = (case feas_iter S af omega space k of
                (om, sp) \<Rightarrow> cutting_plane_feas_loop S af options k om sp)"
  using assms
proof (induction k)
  case 0
  then show ?case by (simp add: cutting_plane_feas_def)
next
  case (Suc k)
  obtain om sp where a: "feas_iter S af omega space k = (om, sp)" by (cases "feas_iter S af omega space k")
  obtain om1 sp1 where b: "feas_iter S af omega space (Suc k) = (om1, sp1)"
    by (cases "feas_iter S af omega space (Suc k)")
  have "cutting_plane_feas S af options omega space = cutting_plane_feas_loop S af options k om sp"
    using Suc a by simp
  also have "\<dots> = cutting_plane_feas_loop S af options (Suc k) om1 sp1"
    using feas_loop_advance [OF _ _ _ a b] Suc.prems by simp
  finally show ?case using b by simp
qed

lemma feas_run_found:
  assumes "k < max_iter options"
    and "\<forall>j<k. \<not> feas_found S af omega space j \<and> \<not> feas_gives_up S af options omega space j"
    and "feas_found S af omega space k"
  shows "cutting_plane_feas S af options omega space
           = (\<lparr>feasible = True, num_iters = k, status = Success\<rparr>, feas_iter S af omega space (Suc k))"
proof -
  obtain om sp where it: "feas_iter S af omega space k = (om, sp)"
    by (cases "feas_iter S af omega space k")
  have "cutting_plane_feas S af options omega space = cutting_plane_feas_loop S af options k om sp"
    using feas_loop_skip [of k options S af omega space] assms it by simp
  also have "\<dots> = (\<lparr>feasible = True, num_iters = k, status = Success\<rparr>,
                     feas_iter S af omega space (Suc k))"
    using assms it
    by (subst cutting_plane_feas_loop.simps)
       (auto simp: feas_found_def split: prod.splits option.splits)
  finally show ?thesis .
qed

lemma feas_run_gives_up:
  assumes "k < max_iter options"
    and "\<forall>j<k. \<not> feas_found S af omega space j \<and> \<not> feas_gives_up S af options omega space j"
    and "feas_gives_up S af options omega space k"
  shows "cutting_plane_feas S af options omega space
           = (\<lparr>feasible = False, num_iters = k, status = Success\<rparr>, feas_iter S af omega space (Suc k))"
proof -
  obtain om sp where it: "feas_iter S af omega space k = (om, sp)"
    by (cases "feas_iter S af omega space k")
  have "cutting_plane_feas S af options omega space = cutting_plane_feas_loop S af options k om sp"
    using feas_loop_skip [of k options S af omega space] assms it by simp
  also have "\<dots> = (\<lparr>feasible = False, num_iters = k, status = Success\<rparr>,
                     feas_iter S af omega space (Suc k))"
    using assms it
    by (subst cutting_plane_feas_loop.simps)
       (auto simp: feas_gives_up_def split: prod.splits option.splits)
  finally show ?thesis .
qed

lemma feas_run_cap:
  assumes "\<forall>j<max_iter options.
             \<not> feas_found S af omega space j \<and> \<not> feas_gives_up S af options omega space j"
  shows "cutting_plane_feas S af options omega space
           = (\<lparr>feasible = False, num_iters = max_iter options, status = Success\<rparr>,
              feas_iter S af omega space (max_iter options))"
proof -
  obtain om sp where it: "feas_iter S af omega space (max_iter options) = (om, sp)"
    by (cases "feas_iter S af omega space (max_iter options)")
  have "cutting_plane_feas S af options omega space
          = cutting_plane_feas_loop S af options (max_iter options) om sp"
    using feas_loop_skip [of "max_iter options" options S af omega space] assms it by simp
  also have "\<dots> = (\<lparr>feasible = False, num_iters = max_iter options, status = Success\<rparr>, om, sp)"
    by (subst cutting_plane_feas_loop.simps) simp
  finally show ?thesis using it by simp
qed

lemma optim_loop_advance:
  assumes "niter < max_iter options"
    and "\<not> optim_stops S ao options omega space tea niter"
    and "optim_iter S ao omega space tea niter = (om, sp, t, xb)"
    and "optim_iter S ao omega space tea (Suc niter) = (om1, sp1, t1, xb1)"
  shows "cutting_plane_optim_loop S ao options niter om sp t xb
           = cutting_plane_optim_loop S ao options (Suc niter) om1 sp1 t1 xb1"
  using assms
  by (subst cutting_plane_optim_loop.simps)
     (auto simp: optim_stops_def optim_status_def split: prod.splits if_splits)

lemma optim_loop_skip:
  assumes "k \<le> max_iter options"
    and "\<forall>j<k. \<not> optim_stops S ao options omega space tea j"
  shows "cutting_plane_optim S ao options omega space tea
           = (case optim_iter S ao omega space tea k of
                (om, sp, t, xb) \<Rightarrow> cutting_plane_optim_loop S ao options k om sp t xb)"
  using assms
proof (induction k)
  case 0
  then show ?case by (simp add: cutting_plane_optim_def)
next
  case (Suc k)
  obtain om sp t xb where a: "optim_iter S ao omega space tea k = (om, sp, t, xb)"
    by (cases "optim_iter S ao omega space tea k")
  obtain om1 sp1 t1 xb1 where b: "optim_iter S ao omega space tea (Suc k) = (om1, sp1, t1, xb1)"
    by (cases "optim_iter S ao omega space tea (Suc k)")
  have "cutting_plane_optim S ao options omega space tea
          = cutting_plane_optim_loop S ao options k om sp t xb"
    using Suc a by simp
  also have "\<dots> = cutting_plane_optim_loop S ao options (Suc k) om1 sp1 t1 xb1"
    using optim_loop_advance [OF _ _ a b] Suc.prems by simp
  finally show ?case using b by simp
qed

lemma optim_run_stops:
  assumes "k < max_iter options"
    and "\<forall>j<k. \<not> optim_stops S ao options omega space tea j"
    and "optim_stops S ao options omega space tea k"
  shows "cutting_plane_optim S ao options omega space tea
           = (case optim_iter S ao omega space tea (Suc k) of
                (om, sp, t, xb) \<Rightarrow> ((xb, k), om, sp, t))"
proof -
  obtain om sp t xb where it: "optim_iter S ao omega space tea k = (om, sp, t, xb)"
    by (cases "optim_iter S ao omega space tea k")
  have "cutting_plane_optim S ao options omega space tea
          = cutting_plane_optim_loop S ao options k om sp t xb"
    using optim_loop_skip [of k options S ao omega space tea] assms it by simp
  also have "\<dots> = (case optim_iter S ao omega space tea (Suc k) of
                (om, sp, t, xb) \<Rightarrow> ((xb, k), om, sp, t))"
    using assms it
    by (subst cutting_plane_optim_loop.simps)
       (auto simp: optim_stops_def optim_status_def split: prod.splits if_splits)
  finally show ?thesis .
qed

lemma optim_run_cap:
  assumes "\<forall>j<max_iter options. \<not> optim_stops S ao options omega space tea j"
  shows "cutting_plane_optim S ao options omega space tea
           = (case optim_iter S ao omega space tea (max_iter options) of
                (om, sp, t, xb) \<Rightarrow> ((xb, max_iter options), om, sp, t))"
proof -
  obtain om sp t xb where it: "optim_iter S ao omega space tea (max_iter options) = (om, sp, t, xb)"
    by (cases "optim_iter S ao omega space tea (max_iter options)")
  have "cutting_plane_optim S ao options omega space tea
          = cutting_plane_optim_loop S ao options (max_iter options) om sp t xb"
    using optim_loop_skip [of "max_iter options" options S ao omega space tea] assms it by simp
  also have "\<dots> = ((xb, max_iter options), om, sp, t)"
    by (subst cutting_plane_optim_loop.simps) simp
  finally show ?thesis using it by simp
qed

lemma q_loop_advance:
  assumes "niter < max_iter options"
    and "\<not> q_stops S aq options omega space tea niter"
    and "q_iter S aq omega space tea niter = (om, sp, t, xb, r)"
    and "q_iter S aq omega space tea (Suc niter) = (om1, sp1, t1, xb1, r1)"
  shows "\<exists>st1. cutting_plane_q_loop S aq options niter om sp t xb st r
           = cutting_plane_q_loop S aq options (Suc niter) om1 sp1 t1 xb1 st1 r1"
  using assms
  by (subst cutting_plane_q_loop.simps)
     (auto simp: q_stops_def q_no_alternative_def q_small_def q_status_def q_more_alt_def
         q_answer_def split: prod.splits if_splits)

lemma q_loop_skip:
  assumes "k \<le> max_iter options"
    and "\<forall>j<k. \<not> q_stops S aq options omega space tea j"
  shows "\<exists>st. cutting_plane_q S aq options omega space tea
           = (case q_iter S aq omega space tea k of
                (om, sp, t, xb, r) \<Rightarrow> cutting_plane_q_loop S aq options k om sp t xb st r)"
  using assms
proof (induction k)
  case 0
  then show ?case by (auto simp: cutting_plane_q_def)
next
  case (Suc k)
  obtain om sp t xb r where a: "q_iter S aq omega space tea k = (om, sp, t, xb, r)"
    by (cases "q_iter S aq omega space tea k")
  obtain om1 sp1 t1 xb1 r1 where b: "q_iter S aq omega space tea (Suc k) = (om1, sp1, t1, xb1, r1)"
    by (cases "q_iter S aq omega space tea (Suc k)")
  obtain st where "cutting_plane_q S aq options omega space tea
          = cutting_plane_q_loop S aq options k om sp t xb st r"
    using Suc a by auto
  moreover obtain st1 where "cutting_plane_q_loop S aq options k om sp t xb st r
      = cutting_plane_q_loop S aq options (Suc k) om1 sp1 t1 xb1 st1 r1"
    using q_loop_advance [OF _ _ a b, of options st] Suc.prems by auto
  ultimately show ?case using b by auto
qed

lemma q_run_break:
  assumes "k < max_iter options"
    and "\<forall>j<k. \<not> q_stops S aq options omega space tea j"
    and "q_no_alternative S aq omega space tea k"
  shows "cutting_plane_q S aq options omega space tea
           = (case q_iter S aq omega space tea (Suc k) of
                (om, sp, t, xb, r) \<Rightarrow> ((xb, max_iter options), om, sp, t))"
proof -
  obtain om sp t xb r where it: "q_iter S aq omega space tea k = (om, sp, t, xb, r)"
    by (cases "q_iter S aq omega space tea k")
  obtain st where "cutting_plane_q S aq options omega space tea
          = cutting_plane_q_loop S aq options k om sp t xb st r"
    using q_loop_skip [of k options S aq omega space tea] assms it by auto
  also have "\<dots> = (case q_iter S aq omega space tea (Suc k) of
                (om, sp, t, xb, r) \<Rightarrow> ((xb, max_iter options), om, sp, t))"
    using assms it
    by (subst cutting_plane_q_loop.simps)
       (auto simp: q_no_alternative_def q_status_def q_more_alt_def q_answer_def
             split: prod.splits if_splits)
  finally show ?thesis .
qed

lemma q_run_return:
  assumes "k < max_iter options"
    and "\<forall>j<k. \<not> q_stops S aq options omega space tea j"
    and "\<not> q_no_alternative S aq omega space tea k"
    and "q_status S aq omega space tea k = NoSoln \<or> q_small S aq options omega space tea k"
  shows "cutting_plane_q S aq options omega space tea
           = (case q_iter S aq omega space tea (Suc k) of
                (om, sp, t, xb, r) \<Rightarrow> ((xb, k), om, sp, t))"
proof -
  obtain om sp t xb r where it: "q_iter S aq omega space tea k = (om, sp, t, xb, r)"
    by (cases "q_iter S aq omega space tea k")
  obtain st where "cutting_plane_q S aq options omega space tea
          = cutting_plane_q_loop S aq options k om sp t xb st r"
    using q_loop_skip [of k options S aq omega space tea] assms it by auto
  also have "\<dots> = (case q_iter S aq omega space tea (Suc k) of
                (om, sp, t, xb, r) \<Rightarrow> ((xb, k), om, sp, t))"
    using assms it
    by (subst cutting_plane_q_loop.simps)
       (auto simp: q_no_alternative_def q_status_def q_more_alt_def q_answer_def q_small_def
             split: prod.splits if_splits)
  finally show ?thesis .
qed

lemma q_run_cap:
  assumes "\<forall>j<max_iter options. \<not> q_stops S aq options omega space tea j"
  shows "cutting_plane_q S aq options omega space tea
           = (case q_iter S aq omega space tea (max_iter options) of
                (om, sp, t, xb, r) \<Rightarrow> ((xb, max_iter options), om, sp, t))"
proof -
  obtain om sp t xb r where it: "q_iter S aq omega space tea (max_iter options) = (om, sp, t, xb, r)"
    by (cases "q_iter S aq omega space tea (max_iter options)")
  obtain st where "cutting_plane_q S aq options omega space tea
          = cutting_plane_q_loop S aq options (max_iter options) om sp t xb st r"
    using q_loop_skip [of "max_iter options" options S aq omega space tea] assms it by auto
  also have "\<dots> = ((xb, max_iter options), om, sp, t)"
    by (subst cutting_plane_q_loop.simps) simp
  finally show ?thesis using it by simp
qed






section \<open>Properties of the drivers\<close>

text \<open>
  C1. At every iteration \<^verbatim>\<open>cutting_plane_optim\<close> asks \<^verbatim>\<open>assess_optim\<close> at the current centre,
  records that centre as \<^verbatim>\<open>x_best\<close> exactly when \<^verbatim>\<open>shrunk\<close> is returned, and applies the
  returned cut (this is the sequence \<open>optim_iter\<close>). It returns \<open>(x_best, k)\<close> at the first
  iteration \<open>k\<close> whose update does not report \<open>Success\<close> or leaves \<^verbatim>\<open>tsq()\<close> below the
  tolerance, and \<open>(x_best, max_iter)\<close> when no iteration below \<^verbatim>\<open>max_iter\<close> does.
\<close>

theorem cutting_plane_optim_first_stop:
  fixes S :: "('s, 'x, 'c) Space" and assess_optim :: "'o \<Rightarrow> 'x \<Rightarrow> 't \<Rightarrow> ('c \<times> bool) \<times> 'o \<times> 't"
  shows
    "(k < max_iter options
        \<and> (\<forall>j<k. \<not> optim_stops S assess_optim options omega space tea j)
        \<and> optim_stops S assess_optim options omega space tea k
      \<longrightarrow> cutting_plane_optim S assess_optim options omega space tea
            = (case optim_iter S assess_optim omega space tea (Suc k) of
                 (om, sp, t, xb) \<Rightarrow> ((xb, k), om, sp, t)))
   \<and> ((\<forall>j<max_iter options. \<not> optim_stops S assess_optim options omega space tea j)
      \<longrightarrow> cutting_plane_optim S assess_optim options omega space tea
            = (case optim_iter S assess_optim omega space tea (max_iter options) of
                 (om, sp, t, xb) \<Rightarrow> ((xb, max_iter options), om, sp, t)))"
  using optim_run_stops [of k options S assess_optim omega space tea]
    optim_run_cap [of options S assess_optim omega space tea]
  by blast

theorem cutting_plane_optim_first_stop_witness:
  "cutting_plane_optim script_space script_optim \<lparr>max_iter = 5, tol = 1\<rparr>
       [((Success, 4), True), ((Success, 3), False), ((NoEffect, 0), True)] ([0, 0], 9) 0
     = (([2, 2], 2), [], ([2, 2], 3), 2)
   \<and> cutting_plane_optim script_space script_optim \<lparr>max_iter = 2, tol = 1\<rparr>
       [((Success, 4), True), ((Success, 3), False), ((NoEffect, 0), True)] ([0, 0], 9) 0
     = (([0, 0], 2), [((NoEffect, 0), True)], ([2, 2], 3), 1)"
proof -
  let ?sc = "[((Success, 4::real), True), ((Success, 3), False), ((NoEffect, 0), True)]"
  let ?it = "optim_iter script_space script_optim ?sc ([0, 0], 9) (0::real)"
  have i1: "?it (Suc 0) = ([((Success, 3), False), ((NoEffect, 0), True)], ([1, 1], 4), 1, [0, 0])"
    by (simp add: script_space_def script_optim_def)
  have i2: "?it (Suc (Suc 0)) = ([((NoEffect, 0), True)], ([2, 2], 3), 1, [0, 0])"
    by (simp add: script_space_def script_optim_def)
  have i3: "?it (Suc (Suc (Suc 0))) = ([], ([2, 2], 3), 2, [2, 2])"
    by (simp add: script_space_def script_optim_def)
  have s0: "\<not> optim_stops script_space script_optim opts ?sc ([0, 0], 9) 0 0" if "tol opts = 1" for opts
    unfolding optim_stops_def optim_status_def i1 using that
    by (simp add: script_space_def script_optim_def)
  have s1: "\<not> optim_stops script_space script_optim opts ?sc ([0, 0], 9) 0 (Suc 0)" if "tol opts = 1" for opts
    unfolding optim_stops_def optim_status_def i1 i2 using that
    by (simp add: script_space_def script_optim_def)
  have s2: "optim_stops script_space script_optim opts ?sc ([0, 0], 9) 0 (Suc (Suc 0))" for opts
    unfolding optim_stops_def optim_status_def i2 i3
    by (simp add: script_space_def script_optim_def)
  have h1: "(2::nat) < max_iter \<lparr>max_iter = 5, tol = 1\<rparr>
        \<and> (\<forall>j<2. \<not> optim_stops script_space script_optim \<lparr>max_iter = 5, tol = 1\<rparr> ?sc ([0, 0], 9) 0 j)
        \<and> optim_stops script_space script_optim \<lparr>max_iter = 5, tol = 1\<rparr> ?sc ([0, 0], 9) 0 2"
    using s0 [of "\<lparr>max_iter = 5, tol = 1\<rparr>"] s1 [of "\<lparr>max_iter = 5, tol = 1\<rparr>"]
      s2 [of "\<lparr>max_iter = 5, tol = 1\<rparr>"]
    by (simp add: numeral_2_eq_2 less_Suc_eq)
  have h2: "\<forall>j<max_iter \<lparr>max_iter = 2, tol = 1\<rparr>.
        \<not> optim_stops script_space script_optim \<lparr>max_iter = 2, tol = 1\<rparr> ?sc ([0, 0], 9) 0 j"
    using s0 [of "\<lparr>max_iter = 2, tol = 1\<rparr>"] s1 [of "\<lparr>max_iter = 2, tol = 1\<rparr>"]
    by (simp add: numeral_2_eq_2 less_Suc_eq)
  have r1: "cutting_plane_optim script_space script_optim \<lparr>max_iter = 5, tol = 1\<rparr> ?sc ([0, 0], 9) 0
     = (([2, 2], 2), [], ([2, 2], 3), 2)"
    using cutting_plane_optim_first_stop [of 2 "\<lparr>max_iter = 5, tol = 1\<rparr>" script_space script_optim
        ?sc "([0, 0], 9)" 0, THEN conjunct1, THEN mp, OF h1]
    by (simp add: i3 numeral_3_eq_3 del: optim_iter.simps)
  have r2: "cutting_plane_optim script_space script_optim \<lparr>max_iter = 2, tol = 1\<rparr> ?sc ([0, 0], 9) 0
     = (([0, 0], 2), [((NoEffect, 0), True)], ([2, 2], 3), 1)"
    using cutting_plane_optim_first_stop [of 0 "\<lparr>max_iter = 2, tol = 1\<rparr>" script_space script_optim
        ?sc "([0, 0], 9)" 0, THEN conjunct2, THEN mp, OF h2]
    by (simp add: i2 numeral_2_eq_2 del: optim_iter.simps)
  show ?thesis using r1 r2 by simp
qed

text \<open>
  C2. \<^verbatim>\<open>cutting_plane_feas\<close> returns \<open>(true, k)\<close> at the first iteration \<open>k\<close> where the oracle
  returns null; it returns \<open>(false, k)\<close> at the first iteration where the cut's update does not
  report \<open>Success\<close> or leaves \<^verbatim>\<open>tsq()\<close> below the tolerance; if neither happens within
  \<^verbatim>\<open>max_iter\<close> iterations it returns \<open>(false, max_iter)\<close>. In each case the oracle and the
  space are left as the iterations up to that point made them.
\<close>

theorem cutting_plane_feas_first_stop:
  fixes S :: "('s, 'x, 'c) Space" and assess_feas :: "'o \<Rightarrow> 'x \<Rightarrow> 'c option \<times> 'o"
  shows
    "(k < max_iter options
        \<and> (\<forall>j<k. \<not> feas_found S assess_feas omega space j
                  \<and> \<not> feas_gives_up S assess_feas options omega space j)
        \<and> feas_found S assess_feas omega space k
      \<longrightarrow> cutting_plane_feas S assess_feas options omega space
            = (\<lparr>feasible = True, num_iters = k, status = Success\<rparr>,
               feas_iter S assess_feas omega space (Suc k)))
   \<and> (k < max_iter options
        \<and> (\<forall>j<k. \<not> feas_found S assess_feas omega space j
                  \<and> \<not> feas_gives_up S assess_feas options omega space j)
        \<and> feas_gives_up S assess_feas options omega space k
      \<longrightarrow> cutting_plane_feas S assess_feas options omega space
            = (\<lparr>feasible = False, num_iters = k, status = Success\<rparr>,
               feas_iter S assess_feas omega space (Suc k)))
   \<and> ((\<forall>j<max_iter options. \<not> feas_found S assess_feas omega space j
                  \<and> \<not> feas_gives_up S assess_feas options omega space j)
      \<longrightarrow> cutting_plane_feas S assess_feas options omega space
            = (\<lparr>feasible = False, num_iters = max_iter options, status = Success\<rparr>,
               feas_iter S assess_feas omega space (max_iter options)))"
  using feas_run_found [of k options S assess_feas omega space]
    feas_run_gives_up [of k options S assess_feas omega space]
    feas_run_cap [of options S assess_feas omega space]
  by blast

theorem cutting_plane_feas_first_stop_witness:
  "cutting_plane_feas script_space script_feas \<lparr>max_iter = 5, tol = 1\<rparr>
       [Some (Success, 4), Some (Success, 3), None] ([0, 0], 9)
     = (\<lparr>feasible = True, num_iters = 2, status = Success\<rparr>, [], ([2, 2], 3))
   \<and> cutting_plane_feas script_space script_feas \<lparr>max_iter = 5, tol = 1\<rparr>
       [Some (Success, 4), Some (NoSoln, 4), None] ([0, 0], 9)
     = (\<lparr>feasible = False, num_iters = 1, status = Success\<rparr>, [None], ([1, 1], 4))
   \<and> cutting_plane_feas script_space script_feas \<lparr>max_iter = 2, tol = 1\<rparr>
       [Some (Success, 4), Some (Success, 3), None] ([0, 0], 9)
     = (\<lparr>feasible = False, num_iters = 2, status = Success\<rparr>, [None], ([2, 2], 3))"
proof -
  let ?sc = "[Some (Success, 4::real), Some (Success, 3), None]"
  let ?sd = "[Some (Success, 4::real), Some (NoSoln, 4), None]"
  let ?o5 = "\<lparr>max_iter = 5, tol = 1\<rparr>"
  let ?o2 = "\<lparr>max_iter = 2, tol = 1\<rparr>"
  have i1: "feas_iter script_space script_feas ?sc ([0, 0], 9) (Suc 0)
              = ([Some (Success, 3), None], ([1, 1], 4))"
    by (simp add: script_space_def script_feas_def)
  have i2: "feas_iter script_space script_feas ?sc ([0, 0], 9) (Suc (Suc 0)) = ([None], ([2, 2], 3))"
    by (simp add: script_space_def script_feas_def)
  have i3: "feas_iter script_space script_feas ?sc ([0, 0], 9) (Suc (Suc (Suc 0))) = ([], ([2, 2], 3))"
    by (simp add: script_space_def script_feas_def)
  have d1: "feas_iter script_space script_feas ?sd ([0, 0], 9) (Suc 0)
              = ([Some (NoSoln, 4), None], ([1, 1], 4))"
    by (simp add: script_space_def script_feas_def)
  have d2: "feas_iter script_space script_feas ?sd ([0, 0], 9) (Suc (Suc 0)) = ([None], ([1, 1], 4))"
    by (simp add: script_space_def script_feas_def)
  have h1: "(2::nat) < max_iter ?o5
        \<and> (\<forall>j<2. \<not> feas_found script_space script_feas ?sc ([0, 0], 9) j
                  \<and> \<not> feas_gives_up script_space script_feas ?o5 ?sc ([0, 0], 9) j)
        \<and> feas_found script_space script_feas ?sc ([0, 0], 9) 2"
    unfolding feas_found_def feas_gives_up_def
    by (simp add: numeral_2_eq_2 less_Suc_eq i1 i2 del: feas_iter.simps(2))
       (simp add: script_space_def script_feas_def)
  have h2: "(1::nat) < max_iter ?o5
        \<and> (\<forall>j<1. \<not> feas_found script_space script_feas ?sd ([0, 0], 9) j
                  \<and> \<not> feas_gives_up script_space script_feas ?o5 ?sd ([0, 0], 9) j)
        \<and> feas_gives_up script_space script_feas ?o5 ?sd ([0, 0], 9) 1"
    unfolding feas_found_def feas_gives_up_def
    by (simp add: d1 del: feas_iter.simps(2))
       (simp add: script_space_def script_feas_def)
  have h3: "\<forall>j<max_iter ?o2. \<not> feas_found script_space script_feas ?sc ([0, 0], 9) j
                  \<and> \<not> feas_gives_up script_space script_feas ?o2 ?sc ([0, 0], 9) j"
    unfolding feas_found_def feas_gives_up_def
    by (simp add: numeral_2_eq_2 less_Suc_eq i1 i2 del: feas_iter.simps(2))
       (simp add: script_space_def script_feas_def)
  have r1: "cutting_plane_feas script_space script_feas ?o5 ?sc ([0, 0], 9)
     = (\<lparr>feasible = True, num_iters = 2, status = Success\<rparr>, [], ([2, 2], 3))"
    using cutting_plane_feas_first_stop [of 2 ?o5 script_space script_feas ?sc "([0, 0], 9)",
        THEN conjunct1, THEN mp, OF h1]
    by (simp add: i3 numeral_3_eq_3 del: feas_iter.simps)
  have r2: "cutting_plane_feas script_space script_feas ?o5 ?sd ([0, 0], 9)
     = (\<lparr>feasible = False, num_iters = 1, status = Success\<rparr>, [None], ([1, 1], 4))"
    using cutting_plane_feas_first_stop [of 1 ?o5 script_space script_feas ?sd "([0, 0], 9)",
        THEN conjunct2, THEN conjunct1, THEN mp, OF h2]
    by (simp add: d2 numeral_2_eq_2 del: feas_iter.simps)
  have r3: "cutting_plane_feas script_space script_feas ?o2 ?sc ([0, 0], 9)
     = (\<lparr>feasible = False, num_iters = 2, status = Success\<rparr>, [None], ([2, 2], 3))"
    using cutting_plane_feas_first_stop [of 0 ?o2 script_space script_feas ?sc "([0, 0], 9)",
        THEN conjunct2, THEN conjunct2, THEN mp, OF h3]
    by (simp add: i2 numeral_2_eq_2 del: feas_iter.simps)
  show ?thesis using r1 r2 r3 by simp
qed

text \<open>
  C3. \<^verbatim>\<open>cutting_plane_q\<close> enters its loop with the retry flag false; the flag the oracle
  receives at the next iteration is true exactly if it was true already or this iteration's
  update reported \<open>NoEffect\<close> while \<^verbatim>\<open>more_alt\<close> was set; the best point becomes \<^verbatim>\<open>x0\<close> at
  every iteration that reports \<^verbatim>\<open>shrunk\<close>. At the first iteration \<open>k\<close> whose update reports
  \<open>NoEffect\<close> with \<^verbatim>\<open>more_alt\<close> false the driver stops iterating (and returns with the
  count \<^verbatim>\<open>max_iter\<close>); at the first whose update reports \<open>NoSoln\<close> it returns \<open>(x_best, k)\<close>.
\<close>

theorem cutting_plane_q_retry_and_stops:
  fixes S :: "('s, 'x, 'c) Space"
    and assess_q :: "'o \<Rightarrow> 'x \<Rightarrow> 't \<Rightarrow> bool \<Rightarrow> ('c \<times> bool \<times> 'x \<times> bool) \<times> 'o \<times> 't"
  shows
    "cutting_plane_q S assess_q options omega space tea
       = cutting_plane_q_loop S assess_q options 0 omega space tea (array0 S) NoSoln False
   \<and> \<not> q_retry S assess_q omega space tea 0
   \<and> (q_retry S assess_q omega space tea (Suc k)
        = (q_retry S assess_q omega space tea k
           \<or> (q_status S assess_q omega space tea k = NoEffect
              \<and> q_more_alt S assess_q omega space tea k)))
   \<and> q_best S assess_q omega space tea (Suc k)
        = (case q_answer S assess_q omega space tea k of
             (c, shrunk, x0, more_alt) \<Rightarrow>
               if shrunk then x0 else q_best S assess_q omega space tea k)
   \<and> (k < max_iter options
        \<and> (\<forall>j<k. \<not> q_stops S assess_q options omega space tea j)
        \<and> q_status S assess_q omega space tea k = NoEffect
        \<and> \<not> q_more_alt S assess_q omega space tea k
      \<longrightarrow> cutting_plane_q S assess_q options omega space tea
            = (case q_iter S assess_q omega space tea (Suc k) of
                 (om, sp, t, xb, r) \<Rightarrow> ((xb, max_iter options), om, sp, t)))
   \<and> (k < max_iter options
        \<and> (\<forall>j<k. \<not> q_stops S assess_q options omega space tea j)
        \<and> q_status S assess_q omega space tea k = NoSoln
      \<longrightarrow> cutting_plane_q S assess_q options omega space tea
            = (case q_iter S assess_q omega space tea (Suc k) of
                 (om, sp, t, xb, r) \<Rightarrow> ((xb, k), om, sp, t)))"
proof (intro conjI)
  show "cutting_plane_q S assess_q options omega space tea
       = cutting_plane_q_loop S assess_q options 0 omega space tea (array0 S) NoSoln False"
    by (simp add: cutting_plane_q_def)
  show "\<not> q_retry S assess_q omega space tea 0"
    by (simp add: q_retry_def)
  show "q_retry S assess_q omega space tea (Suc k)
        = (q_retry S assess_q omega space tea k
           \<or> (q_status S assess_q omega space tea k = NoEffect
              \<and> q_more_alt S assess_q omega space tea k))"
    by (simp add: q_retry_def q_status_def q_more_alt_def q_answer_def split: prod.splits)
  show "q_best S assess_q omega space tea (Suc k)
        = (case q_answer S assess_q omega space tea k of
             (c, shrunk, x0, more_alt) \<Rightarrow>
               if shrunk then x0 else q_best S assess_q omega space tea k)"
    by (simp add: q_best_def q_answer_def split: prod.splits)
  show "k < max_iter options
        \<and> (\<forall>j<k. \<not> q_stops S assess_q options omega space tea j)
        \<and> q_status S assess_q omega space tea k = NoEffect
        \<and> \<not> q_more_alt S assess_q omega space tea k
      \<longrightarrow> cutting_plane_q S assess_q options omega space tea
            = (case q_iter S assess_q omega space tea (Suc k) of
                 (om, sp, t, xb, r) \<Rightarrow> ((xb, max_iter options), om, sp, t))"
    using q_run_break [of k options S assess_q omega space tea]
    by (simp add: q_no_alternative_def)
  show "k < max_iter options
        \<and> (\<forall>j<k. \<not> q_stops S assess_q options omega space tea j)
        \<and> q_status S assess_q omega space tea k = NoSoln
      \<longrightarrow> cutting_plane_q S assess_q options omega space tea
            = (case q_iter S assess_q omega space tea (Suc k) of
                 (om, sp, t, xb, r) \<Rightarrow> ((xb, k), om, sp, t))"
    using q_run_return [of k options S assess_q omega space tea]
    by (simp add: q_no_alternative_def)
qed

theorem cutting_plane_q_retry_and_stops_witness:
  "cutting_plane_q script_space script_q \<lparr>max_iter = 5, tol = 1\<rparr>
       ([((NoEffect, 0), False, True), ((NoEffect, 0), True, False)], []) ([1, 1], 9) 0
     = (([2, 2], 5), ([], [False, True]), ([1, 1], 9), 1)
   \<and> cutting_plane_q script_space script_q \<lparr>max_iter = 5, tol = 1\<rparr>
       ([((Success, 4), True, False), ((NoSoln, 0), False, False)], []) ([1, 1], 9) 0
     = (([2, 2], 1), ([], [False, False]), ([2, 2], 4), 1)"
proof -
  let ?a = "([((NoEffect, 0::real), False, True), ((NoEffect, 0), True, False)], [])"
  let ?b = "([((Success, 4::real), True, False), ((NoSoln, 0), False, False)], [])"
  let ?o = "\<lparr>max_iter = 5, tol = 1\<rparr>"
  let ?ia = "q_iter script_space script_q ?a ([1, 1], 9) (0::real)"
  let ?ib = "q_iter script_space script_q ?b ([1, 1], 9) (0::real)"
  have a1: "?ia (Suc 0) = (([((NoEffect, 0), True, False)], [False]), ([1, 1], 9), 0, [], True)"
    by (simp add: script_space_def script_q_def)
  have a2: "?ia (Suc (Suc 0)) = (([], [False, True]), ([1, 1], 9), 1, [2, 2], True)"
    by (simp add: script_space_def script_q_def)
  have b1: "?ib (Suc 0) = (([((NoSoln, 0), False, False)], [False]), ([2, 2], 4), 1, [2, 2], False)"
    by (simp add: script_space_def script_q_def)
  have b2: "?ib (Suc (Suc 0)) = (([], [False, False]), ([2, 2], 4), 1, [2, 2], False)"
    by (simp add: script_space_def script_q_def)
  have ha: "(1::nat) < max_iter ?o
        \<and> (\<forall>j<1. \<not> q_stops script_space script_q ?o ?a ([1, 1], 9) 0 j)
        \<and> q_status script_space script_q ?a ([1, 1], 9) 0 1 = NoEffect
        \<and> \<not> q_more_alt script_space script_q ?a ([1, 1], 9) 0 1"
    unfolding q_stops_def q_no_alternative_def q_small_def q_status_def q_more_alt_def q_answer_def
    by (simp add: a1 a2 del: q_iter.simps(2))
       (simp add: script_space_def script_q_def)
  have hb: "(1::nat) < max_iter ?o
        \<and> (\<forall>j<1. \<not> q_stops script_space script_q ?o ?b ([1, 1], 9) 0 j)
        \<and> q_status script_space script_q ?b ([1, 1], 9) 0 1 = NoSoln"
    unfolding q_stops_def q_no_alternative_def q_small_def q_status_def q_more_alt_def q_answer_def
    by (simp add: b1 b2 del: q_iter.simps(2))
       (simp add: script_space_def script_q_def)
  have ra: "cutting_plane_q script_space script_q ?o ?a ([1, 1], 9) 0
     = (([2, 2], 5), ([], [False, True]), ([1, 1], 9), 1)"
    using cutting_plane_q_retry_and_stops [of script_space script_q ?o ?a "([1, 1], 9)" 0 1,
        THEN conjunct2, THEN conjunct2, THEN conjunct2, THEN conjunct2, THEN conjunct1, THEN mp, OF ha]
    by (simp add: a2 numeral_2_eq_2 del: q_iter.simps)
  have rb: "cutting_plane_q script_space script_q ?o ?b ([1, 1], 9) 0
     = (([2, 2], 1), ([], [False, False]), ([2, 2], 4), 1)"
    using cutting_plane_q_retry_and_stops [of script_space script_q ?o ?b "([1, 1], 9)" 0 1,
        THEN conjunct2, THEN conjunct2, THEN conjunct2, THEN conjunct2, THEN conjunct2, THEN mp, OF hb]
    by (simp add: b2 numeral_2_eq_2 del: q_iter.simps)
  show ?thesis using ra rb by simp
qed

text \<open>
  C10. In \<^verbatim>\<open>cutting_plane_q\<close> an update that reports \<open>SmallEnough\<close> does not end the loop.
  \<^verbatim>\<open>cutting_plane_feas\<close> and \<^verbatim>\<open>cutting_plane_optim\<close> return at the first iteration whose update
  reports \<open>SmallEnough\<close>; \<^verbatim>\<open>cutting_plane_q\<close> goes on to the next iteration after such an
  update (unless \<^verbatim>\<open>tsq()\<close> is below the tolerance), and runs all \<^verbatim>\<open>max_iter\<close> iterations
  whenever no update reports \<open>NoSoln\<close>, none reports \<open>NoEffect\<close> with \<^verbatim>\<open>more_alt\<close> false, and
  \<^verbatim>\<open>tsq()\<close> never falls below the tolerance.
\<close>

theorem small_enough_ends_feas_optim_not_q:
  fixes S :: "('s, 'x, 'c) Space"
    and assess_feas :: "'o \<Rightarrow> 'x \<Rightarrow> 'c option \<times> 'o"
    and assess_optim :: "'p \<Rightarrow> 'x \<Rightarrow> 't \<Rightarrow> ('c \<times> bool) \<times> 'p \<times> 't"
    and assess_q :: "'q \<Rightarrow> 'x \<Rightarrow> 't \<Rightarrow> bool \<Rightarrow> ('c \<times> bool \<times> 'x \<times> bool) \<times> 'q \<times> 't"
  shows
    "(k < max_iter options
        \<and> (\<forall>j<k. \<not> feas_found S assess_feas omega space j
                  \<and> \<not> feas_gives_up S assess_feas options omega space j)
        \<and> feas_cut_status S assess_feas omega space k = Some SmallEnough
      \<longrightarrow> cutting_plane_feas S assess_feas options omega space
            = (\<lparr>feasible = False, num_iters = k, status = Success\<rparr>,
               feas_iter S assess_feas omega space (Suc k)))
   \<and> (k < max_iter options
        \<and> (\<forall>j<k. \<not> optim_stops S assess_optim options omega' space tea j)
        \<and> optim_status S assess_optim omega' space tea k = SmallEnough
      \<longrightarrow> cutting_plane_optim S assess_optim options omega' space tea
            = (case optim_iter S assess_optim omega' space tea (Suc k) of
                 (om, sp, t, xb) \<Rightarrow> ((xb, k), om, sp, t)))
   \<and> (k < max_iter options
        \<and> (\<forall>j<k. \<not> q_stops S assess_q options omega'' space tea j)
        \<and> q_status S assess_q omega'' space tea k = SmallEnough
        \<and> \<not> q_small S assess_q options omega'' space tea k
      \<longrightarrow> (\<exists>status1.
            cutting_plane_q S assess_q options omega'' space tea
            = (case q_iter S assess_q omega'' space tea (Suc k) of
                 (om, sp, t, xb, r) \<Rightarrow>
                   cutting_plane_q_loop S assess_q options (Suc k) om sp t xb status1 r)))
   \<and> ((\<forall>j<max_iter options.
            q_status S assess_q omega'' space tea j \<noteq> NoSoln
          \<and> \<not> (q_status S assess_q omega'' space tea j = NoEffect
                \<and> \<not> q_more_alt S assess_q omega'' space tea j)
          \<and> \<not> q_small S assess_q options omega'' space tea j)
      \<longrightarrow> cutting_plane_q S assess_q options omega'' space tea
            = (case q_iter S assess_q omega'' space tea (max_iter options) of
                 (om, sp, t, xb, r) \<Rightarrow> ((xb, max_iter options), om, sp, t)))"
proof (intro conjI impI)
  assume a: "k < max_iter options
        \<and> (\<forall>j<k. \<not> feas_found S assess_feas omega space j
                  \<and> \<not> feas_gives_up S assess_feas options omega space j)
        \<and> feas_cut_status S assess_feas omega space k = Some SmallEnough"
  then have "feas_gives_up S assess_feas options omega space k"
    by (auto simp: feas_cut_status_def feas_gives_up_def split: prod.splits option.splits)
  then show "cutting_plane_feas S assess_feas options omega space
            = (\<lparr>feasible = False, num_iters = k, status = Success\<rparr>,
               feas_iter S assess_feas omega space (Suc k))"
    using a feas_run_gives_up [of k options S assess_feas omega space] by blast
next
  assume a: "k < max_iter options
        \<and> (\<forall>j<k. \<not> optim_stops S assess_optim options omega' space tea j)
        \<and> optim_status S assess_optim omega' space tea k = SmallEnough"
  then have "optim_stops S assess_optim options omega' space tea k"
    by (simp add: optim_stops_def)
  then show "cutting_plane_optim S assess_optim options omega' space tea
            = (case optim_iter S assess_optim omega' space tea (Suc k) of
                 (om, sp, t, xb) \<Rightarrow> ((xb, k), om, sp, t))"
    using a optim_run_stops [of k options S assess_optim omega' space tea] by blast
next
  assume a: "k < max_iter options
        \<and> (\<forall>j<k. \<not> q_stops S assess_q options omega'' space tea j)
        \<and> q_status S assess_q omega'' space tea k = SmallEnough
        \<and> \<not> q_small S assess_q options omega'' space tea k"
  then have "\<not> q_stops S assess_q options omega'' space tea k"
    by (simp add: q_stops_def q_no_alternative_def)
  then have "\<forall>j<Suc k. \<not> q_stops S assess_q options omega'' space tea j"
    using a by (simp add: less_Suc_eq)
  then show "\<exists>status1.
            cutting_plane_q S assess_q options omega'' space tea
            = (case q_iter S assess_q omega'' space tea (Suc k) of
                 (om, sp, t, xb, r) \<Rightarrow>
                   cutting_plane_q_loop S assess_q options (Suc k) om sp t xb status1 r)"
    using a q_loop_skip [of "Suc k" options S assess_q omega'' space tea] by simp
next
  assume "\<forall>j<max_iter options.
            q_status S assess_q omega'' space tea j \<noteq> NoSoln
          \<and> \<not> (q_status S assess_q omega'' space tea j = NoEffect
                \<and> \<not> q_more_alt S assess_q omega'' space tea j)
          \<and> \<not> q_small S assess_q options omega'' space tea j"
  then have "\<forall>j<max_iter options. \<not> q_stops S assess_q options omega'' space tea j"
    by (simp add: q_stops_def q_no_alternative_def)
  then show "cutting_plane_q S assess_q options omega'' space tea
            = (case q_iter S assess_q omega'' space tea (max_iter options) of
                 (om, sp, t, xb, r) \<Rightarrow> ((xb, max_iter options), om, sp, t))"
    by (rule q_run_cap)
qed

theorem small_enough_ends_feas_optim_not_q_witness:
  "cutting_plane_feas script_space script_feas \<lparr>max_iter = 2, tol = 1\<rparr>
       [Some (SmallEnough, 9), Some (Success, 9)] ([1, 1], 9)
     = (\<lparr>feasible = False, num_iters = 0, status = Success\<rparr>, [Some (Success, 9)], ([1, 1], 9))
   \<and> cutting_plane_optim script_space script_optim \<lparr>max_iter = 2, tol = 1\<rparr>
       [((SmallEnough, 9), True), ((Success, 9), True)] ([1, 1], 9) 0
     = (([1, 1], 0), [((Success, 9), True)], ([1, 1], 9), 1)
   \<and> (\<exists>status1. cutting_plane_q script_space script_q \<lparr>max_iter = 2, tol = 1\<rparr>
       ([((SmallEnough, 9), False, False), ((SmallEnough, 9), True, False)], []) ([1, 1], 9) 0
     = cutting_plane_q_loop script_space script_q \<lparr>max_iter = 2, tol = 1\<rparr> (Suc 0)
         ([((SmallEnough, 9), True, False)], [False]) ([1, 1], 9) 0 [] status1 False)
   \<and> cutting_plane_q script_space script_q \<lparr>max_iter = 2, tol = 1\<rparr>
       ([((SmallEnough, 9), False, False), ((SmallEnough, 9), True, False)], []) ([1, 1], 9) 0
     = (([2, 2], 2), ([], [False, False]), ([1, 1], 9), 1)"
proof -
  let ?o = "\<lparr>max_iter = 2, tol = 1\<rparr>"
  let ?f = "[Some (SmallEnough, 9::real), Some (Success, 9)]"
  let ?p = "[((SmallEnough, 9::real), True), ((Success, 9), True)]"
  let ?q = "([((SmallEnough, 9::real), False, False), ((SmallEnough, 9), True, False)], [])"
  have f1: "feas_iter script_space script_feas ?f ([1, 1], 9) (Suc 0) = ([Some (Success, 9)], ([1, 1], 9))"
    by (simp add: script_space_def script_feas_def)
  have p1: "optim_iter script_space script_optim ?p ([1, 1], 9) (0::real) (Suc 0)
              = ([((Success, 9), True)], ([1, 1], 9), 1, [1, 1])"
    by (simp add: script_space_def script_optim_def)
  have q1: "q_iter script_space script_q ?q ([1, 1], 9) (0::real) (Suc 0)
              = (([((SmallEnough, 9), True, False)], [False]), ([1, 1], 9), 0, [], False)"
    by (simp add: script_space_def script_q_def)
  have q2: "q_iter script_space script_q ?q ([1, 1], 9) (0::real) (Suc (Suc 0))
              = (([], [False, False]), ([1, 1], 9), 1, [2, 2], False)"
    by (simp add: script_space_def script_q_def)
  have hf: "(0::nat) < max_iter ?o
        \<and> (\<forall>j<0. \<not> feas_found script_space script_feas ?f ([1, 1], 9) j
                  \<and> \<not> feas_gives_up script_space script_feas ?o ?f ([1, 1], 9) j)
        \<and> feas_cut_status script_space script_feas ?f ([1, 1], 9) 0 = Some SmallEnough"
    by (simp add: feas_cut_status_def script_space_def script_feas_def)
  have hp: "(0::nat) < max_iter ?o
        \<and> (\<forall>j<0. \<not> optim_stops script_space script_optim ?o ?p ([1, 1], 9) 0 j)
        \<and> optim_status script_space script_optim ?p ([1, 1], 9) 0 0 = SmallEnough"
    by (simp add: optim_status_def script_space_def script_optim_def)
  have hq: "(0::nat) < max_iter ?o
        \<and> (\<forall>j<0. \<not> q_stops script_space script_q ?o ?q ([1, 1], 9) 0 j)
        \<and> q_status script_space script_q ?q ([1, 1], 9) 0 0 = SmallEnough
        \<and> \<not> q_small script_space script_q ?o ?q ([1, 1], 9) 0 0"
    unfolding q_small_def q_status_def q_answer_def
    by (simp add: q1 del: q_iter.simps(2)) (simp add: script_space_def script_q_def)
  have hc: "\<forall>j<max_iter ?o.
            q_status script_space script_q ?q ([1, 1], 9) 0 j \<noteq> NoSoln
          \<and> \<not> (q_status script_space script_q ?q ([1, 1], 9) 0 j = NoEffect
                \<and> \<not> q_more_alt script_space script_q ?q ([1, 1], 9) 0 j)
          \<and> \<not> q_small script_space script_q ?o ?q ([1, 1], 9) 0 j"
    unfolding q_small_def q_status_def q_answer_def q_more_alt_def
    by (simp add: q1 q2 numeral_2_eq_2 less_Suc_eq del: q_iter.simps(2))
       (simp add: script_space_def script_q_def)
  have rf: "cutting_plane_feas script_space script_feas ?o ?f ([1, 1], 9)
     = (\<lparr>feasible = False, num_iters = 0, status = Success\<rparr>, [Some (Success, 9)], ([1, 1], 9))"
    using small_enough_ends_feas_optim_not_q [of 0 ?o script_space script_feas ?f "([1, 1], 9)"
        script_optim ?p 0 script_q ?q, THEN conjunct1, THEN mp, OF hf]
    by (simp add: f1 del: feas_iter.simps)
  have rp: "cutting_plane_optim script_space script_optim ?o ?p ([1, 1], 9) 0
     = (([1, 1], 0), [((Success, 9), True)], ([1, 1], 9), 1)"
    using small_enough_ends_feas_optim_not_q [of 0 ?o script_space script_feas ?f "([1, 1], 9)"
        script_optim ?p 0 script_q ?q, THEN conjunct2, THEN conjunct1, THEN mp, OF hp]
    by (simp add: p1 del: optim_iter.simps)
  have rq: "\<exists>status1. cutting_plane_q script_space script_q ?o ?q ([1, 1], 9) 0
     = cutting_plane_q_loop script_space script_q ?o (Suc 0)
         ([((SmallEnough, 9), True, False)], [False]) ([1, 1], 9) 0 [] status1 False"
    using small_enough_ends_feas_optim_not_q [of 0 ?o script_space script_feas ?f "([1, 1], 9)"
        script_optim ?p 0 script_q ?q, THEN conjunct2, THEN conjunct2, THEN conjunct1, THEN mp, OF hq]
    by (simp add: q1 del: q_iter.simps)
  have rc: "cutting_plane_q script_space script_q ?o ?q ([1, 1], 9) 0
     = (([2, 2], 2), ([], [False, False]), ([1, 1], 9), 1)"
    using small_enough_ends_feas_optim_not_q [of 0 ?o script_space script_feas ?f "([1, 1], 9)"
        script_optim ?p 0 script_q ?q, THEN conjunct2, THEN conjunct2, THEN conjunct2, THEN mp, OF hc]
    by (simp add: q2 numeral_2_eq_2 del: q_iter.simps)
  show ?thesis using rf rp rq rc by simp
qed



text \<open>
  C9. \<^verbatim>\<open>bsearch_adaptor::assess_bs\<close> runs \<^verbatim>\<open>cutting_plane_feas\<close> on a copy of the wrapped
  space, after \<^verbatim>\<open>omega.update(tea)\<close>. It returns the verdict of that run. When the verdict
  is feasible the outer space becomes \<^verbatim>\<open>set_xc\<close> of itself with the copy's centre; otherwise
  it is the outer space as it was. Either way every part of the outer space that
  \<^verbatim>\<open>set_xc\<close> leaves alone is as before.
\<close>

theorem assess_bs_frame:
  fixes S :: "('s, 'x, 'c) Space" and part :: "'s \<Rightarrow> 'a"
  assumes "\<And>s v. part (set_xc S s v) = part s"
  shows "(case cutting_plane_feas S assess_feas options (omega_update omega tea) (copy S outer) of
            (ell_info, omega2, space2) \<Rightarrow>
              bsearch_adaptor_assess_bs S omega_update assess_feas options (omega, outer) tea
                = (feasible ell_info, omega2,
                   if feasible ell_info then set_xc S outer (xc S space2) else outer))
       \<and> part (snd (snd (bsearch_adaptor_assess_bs S omega_update assess_feas options
                            (omega, outer) tea)))
           = part outer"
  using assms by (auto simp: bsearch_adaptor_assess_bs_def split: prod.splits)

theorem assess_bs_frame_witness:
  "bsearch_adaptor_assess_bs script_space (\<lambda>script tea. script @ [tea]) script_feas
       \<lparr>max_iter = 5, tol = 1\<rparr> ([Some (Success, 4)], ([0, 0], 9)) None
     = (True, [], ([1, 1], 9))
   \<and> bsearch_adaptor_assess_bs script_space (\<lambda>script tea. script @ [tea]) script_feas
       \<lparr>max_iter = 5, tol = 1\<rparr> ([Some (Success, 4)], ([0, 0], 9)) (Some (NoSoln, 0))
     = (False, [], ([0, 0], 9))
   \<and> snd (snd (snd (bsearch_adaptor_assess_bs script_space (\<lambda>script tea. script @ [tea]) script_feas
       \<lparr>max_iter = 5, tol = 1\<rparr> ([Some (Success, 4)], ([0, 0], 9)) None))) = 9"
proof -
  have h: "\<And>s v. snd (set_xc script_space s v) = snd s"
    by (simp add: script_space_def)
  have a: "bsearch_adaptor_assess_bs script_space (\<lambda>script tea. script @ [tea]) script_feas
       \<lparr>max_iter = 5, tol = 1\<rparr> ([Some (Success, 4)], ([0, 0], 9)) None
     = (True, [], ([1, 1], 9))"
    by (simp add: bsearch_adaptor_assess_bs_def cutting_plane_feas_def cutting_plane_feas_loop.simps
        script_space_def script_feas_def)
  have b: "bsearch_adaptor_assess_bs script_space (\<lambda>script tea. script @ [tea]) script_feas
       \<lparr>max_iter = 5, tol = 1\<rparr> ([Some (Success, 4)], ([0, 0], 9)) (Some (NoSoln, 0))
     = (False, [], ([0, 0], 9))"
    by (simp add: bsearch_adaptor_assess_bs_def cutting_plane_feas_def cutting_plane_feas_loop.simps
        script_space_def script_feas_def)
  show ?thesis
    using a b assess_bs_frame [where part = snd and S = script_space, OF h,
        where assess_feas = script_feas and options = "\<lparr>max_iter = 5, tol = 1\<rparr>"
          and omega_update = "\<lambda>script tea. script @ [tea]" and omega = "[Some (Success, 4)]"
          and tea = None and outer = "([0, 0], 9)", THEN conjunct2]
    by simp
qed

section \<open>Properties of the profit oracle\<close>




section \<open>The LDLT loops\<close>

lemma mat_set_apply [simp]: "mat_set A i j v r c = (if r = i \<and> c = j then v else A r c)"
  by (simp add: mat_set_def)

























section \<open>Properties of the LDLT manager\<close>









end
